theory Spec2Isabelle
  imports Main "HOL-Library.Sublist" "HOL-Library.Word"
begin

section \<open>Collector selection (pkg/runner/collector_selector.go)\<close>

text \<open>
  Go strings are byte sequences; they are modelled as \<open>string\<close> (a list of 8-bit
  characters). The package variables \<open>OptionalCollectorNames\<close> and
  \<open>RequiredCollectorNames\<close> are filled by \<open>init\<close> from constants of the collectors
  package; the selection function reads them, so the model takes both lists as arguments.
\<close>

definition asciiLower :: "char \<Rightarrow> char" where
  "asciiLower c =
     (if (65::nat) \<le> of_char c \<and> of_char c \<le> (90::nat)
      then char_of (of_char c + (32::nat)) else c)"

text \<open>
  \<open>strings.EqualFold\<close>: equality under simple case folding. The source calls it with
  the literal \<open>all\<close> only; no rune outside ASCII folds to \<open>a\<close> or \<open>l\<close>, so folding the
  ASCII letters decides that call exactly.
\<close>

definition EqualFold :: "string \<Rightarrow> string \<Rightarrow> bool" where
  "EqualFold s t = (map asciiLower s = map asciiLower t)"

fun isIn :: "string \<Rightarrow> string list \<Rightarrow> bool" where
  "isIn name [] = False"
| "isIn name (arrVal # arr) = (if name = arrVal then True else isIn name arr)"

text \<open>The loop of \<open>removeDuplicates\<close>, with \<open>res\<close> as its accumulator.\<close>

fun removeDuplicates_loop :: "string list \<Rightarrow> string list \<Rightarrow> string list" where
  "removeDuplicates_loop res [] = res"
| "removeDuplicates_loop res (name # arr) =
     (if \<not> isIn name res then removeDuplicates_loop (res @ [name]) arr
      else removeDuplicates_loop res arr)"

definition removeDuplicates :: "string list \<Rightarrow> string list" where
  "removeDuplicates arr = removeDuplicates_loop [] arr"

text \<open>
  The loop of \<open>GetCollectorsToRun\<close> over the selected names; the four cases of the
  \<open>switch\<close> in the order of the source. The default case writes a log line and
  leaves the list as it is.
\<close>

fun GetCollectorsToRun_loop ::
  "string list \<Rightarrow> string list \<Rightarrow> string list \<Rightarrow> string list" where
  "GetCollectorsToRun_loop optional collectorNames [] = collectorNames"
| "GetCollectorsToRun_loop optional collectorNames (name # rest) =
     (if EqualFold name ''all''
        then removeDuplicates (collectorNames @ optional)
      else if isIn name collectorNames
        then GetCollectorsToRun_loop optional collectorNames rest
      else if isIn name optional
        then GetCollectorsToRun_loop optional (collectorNames @ [name]) rest
      else GetCollectorsToRun_loop optional collectorNames rest)"

definition GetCollectorsToRun ::
  "string list \<Rightarrow> string list \<Rightarrow> string list \<Rightarrow> string list" where
  "GetCollectorsToRun required optional selectedCollectors =
     GetCollectorsToRun_loop optional ([] @ required) selectedCollectors"

section \<open>Errors and abnormal termination\<close>

text \<open>
  A Go \<open>error\<close> value: \<open>errors.New\<close> (and \<open>fmt.Errorf\<close> without \<open>%w\<close>) builds a
  message, the API server answers with a status that carries a reason, and
  \<open>fmt.Errorf\<close> with \<open>%w\<close> wraps an error behind the text that precedes the verb.
  \<open>None\<close> of type \<open>error option\<close> is Go's \<open>nil\<close> error.
\<close>

datatype reason = NotFound | Unknown

datatype error = New string | Status reason string | Wrap string error

fun errorString :: "error \<Rightarrow> string" where
  "errorString (New msg) = msg"
| "errorString (Status r msg) = msg"
| "errorString (Wrap text e) = text @ errorString e"

text \<open>\<open>k8sErrors.IsNotFound\<close>: the reason of the status error, seen through wrapping.\<close>

fun IsNotFound :: "error \<Rightarrow> bool" where
  "IsNotFound (New msg) = False"
| "IsNotFound (Status r msg) = (r = NotFound)"
| "IsNotFound (Wrap text e) = IsNotFound e"

text \<open>A call either returns its value or panics (nil dereference, index out of range).\<close>

datatype 'a exec = Panics string | Returns 'a

section \<open>Per-call exec session (pkg/clients/exec_command.go)\<close>

record ContainerExecContext =
  namespace :: string
  podName :: string
  containerName :: string
  podNamePrefix :: string

text \<open>The \<open>PodExecOptions\<close> of one exec request, with the pod it is addressed to.\<close>

record ExecRequest =
  reqNamespace :: string
  reqName :: string
  reqContainer :: string
  reqCommand :: "string list"
  reqStdin :: bool
  reqStdout :: bool
  reqStderr :: bool
  reqTTY :: bool

text \<open>
  The clientset stands for the cluster. Its state is a value of type \<open>'w\<close> that every
  remote call may change. \<open>FindPodNameFromPrefix\<close> is a method of the clientset defined
  outside the files at hand, \<open>NewSPDYExecutor\<close> is a package variable holding a function,
  and \<open>StreamWithContext\<close> belongs to the executor it returns: all three are taken as
  given. A stream answers with the captured stdout and stderr and an optional error.
\<close>

record 'w Clientset =
  FindPodNameFromPrefix :: "'w \<Rightarrow> string \<Rightarrow> string \<Rightarrow> error + string"
  NewSPDYExecutor :: "'w \<Rightarrow> ExecRequest \<Rightarrow> error option"
  StreamWithContext ::
    "'w \<Rightarrow> ExecRequest \<Rightarrow> string option \<Rightarrow> (string \<times> string \<times> error option) \<times> 'w"

definition refresh ::
  "'w Clientset \<Rightarrow> 'w \<Rightarrow> ContainerExecContext \<Rightarrow> error option \<times> ContainerExecContext" where
  "refresh clientset w c =
     (case FindPodNameFromPrefix clientset w (namespace c) (podNamePrefix c) of
        Inl err \<Rightarrow> (Some err, c)
      | Inr newPodname \<Rightarrow> (None, c\<lparr>podName := newPodname\<rparr>))"

definition zeroContainerExecContext :: ContainerExecContext where
  "zeroContainerExecContext =
     \<lparr>namespace = [], podName = [], containerName = [], podNamePrefix = []\<rparr>"

definition NewContainerContext ::
  "'w Clientset \<Rightarrow> 'w \<Rightarrow> string \<Rightarrow> string \<Rightarrow> string \<Rightarrow> ContainerExecContext \<times> error option" where
  "NewContainerContext clientset w ns namePrefix container =
     (case FindPodNameFromPrefix clientset w ns namePrefix of
        Inl err \<Rightarrow> (zeroContainerExecContext, Some err)
      | Inr name \<Rightarrow>
          (\<lparr>namespace = ns, podName = name, containerName = container,
            podNamePrefix = namePrefix\<rparr>, None))"

text \<open>The request that \<open>execCommand\<close> builds from the context as it stands at the call.\<close>

definition execRequest :: "ContainerExecContext \<Rightarrow> string list \<Rightarrow> bool \<Rightarrow> ExecRequest" where
  "execRequest c command useBuffIn =
     \<lparr>reqNamespace = namespace c, reqName = podName c, reqContainer = containerName c,
      reqCommand = command, reqStdin = useBuffIn, reqStdout = True, reqStderr = True,
      reqTTY = False\<rparr>"

text \<open>
  \<open>execCommand\<close> returns stdout, stderr and the error, the context (whose pod name the
  call may have replaced) and the cluster after the call. \<open>buffInPtr\<close> is \<open>None\<close> for
  a nil pointer. A failed refresh is logged and otherwise ignored.
\<close>

definition execCommand ::
  "'w Clientset \<Rightarrow> 'w \<Rightarrow> ContainerExecContext \<Rightarrow> string list \<Rightarrow> string option
     \<Rightarrow> (string \<times> string \<times> error option) \<times> ContainerExecContext \<times> 'w" where
  "execCommand clientset w c command buffInPtr =
     (let useBuffIn = (buffInPtr \<noteq> None);
          req = execRequest c command useBuffIn
      in case NewSPDYExecutor clientset w req of
           Some err \<Rightarrow> (([], [], Some (Wrap ''error setting up remote command: '' err)), c, w)
         | None \<Rightarrow>
             (case StreamWithContext clientset w req buffInPtr of
                ((stdout, stderr, None), w') \<Rightarrow> ((stdout, stderr, None), c, w')
              | ((stdout, stderr, Some err), w') \<Rightarrow>
                  ((stdout, stderr, Some (Wrap ''error running remote command: '' err)),
                   (if IsNotFound err then snd (refresh clientset w' c) else c), w')))"

definition ExecCommand ::
  "'w Clientset \<Rightarrow> 'w \<Rightarrow> ContainerExecContext \<Rightarrow> string list
     \<Rightarrow> (string \<times> string \<times> error option) \<times> ContainerExecContext \<times> 'w" where
  "ExecCommand clientset w c command = execCommand clientset w c command None"

definition ExecCommandStdIn ::
  "'w Clientset \<Rightarrow> 'w \<Rightarrow> ContainerExecContext \<Rightarrow> string list \<Rightarrow> string
     \<Rightarrow> (string \<times> string \<times> error option) \<times> ContainerExecContext \<times> 'w" where
  "ExecCommandStdIn clientset w c command buffIn = execCommand clientset w c command (Some buffIn)"

section \<open>Pod lifecycle: deletion (pkg/clients/exec_command.go)\<close>

text \<open>
  The API server behind \<open>K8sClient.CoreV1().Pods(ns)\<close> is outside the repository. It is
  modelled as a store of pods with a clock (in nanoseconds, the unit of Go's
  \<open>time.Duration\<close>): a request takes \<open>latency\<close> and fails with the fault scheduled
  for the instant it is issued, if there is one. An accepted delete marks the pod, which
  stays listed until its termination has run; a delete of a name that is not stored is
  answered with a NotFound status, as the API server and client-go's fake clientset do.
  Every request is appended to \<open>requests\<close>.
\<close>

record Pod =
  Name :: string
  Namespace :: string

datatype propagation = Orphan | Background | Foreground

datatype api_request = DeleteRequest string string propagation | ListRequest string

record stored =
  object :: Pod
  terminates :: nat
  goneAt :: "nat option"

record cluster =
  now :: nat
  latency :: nat
  faults :: "nat \<Rightarrow> error option"
  store :: "stored list"
  requests :: "api_request list"

definition present :: "nat \<Rightarrow> stored \<Rightarrow> bool" where
  "present t s = (case goneAt s of None \<Rightarrow> True | Some g \<Rightarrow> t < g)"

definition addressed :: "nat \<Rightarrow> string \<Rightarrow> string \<Rightarrow> stored \<Rightarrow> bool" where
  "addressed t ns name s =
     (present t s \<and> Namespace (object s) = ns \<and> Name (object s) = name)"

definition served :: "cluster \<Rightarrow> api_request \<Rightarrow> cluster" where
  "served w r = w\<lparr>now := now w + latency w, requests := requests w @ [r]\<rparr>"

definition api_Delete ::
  "cluster \<Rightarrow> string \<Rightarrow> string \<Rightarrow> propagation \<Rightarrow> error option \<times> cluster" where
  "api_Delete w ns name policy =
     (case faults w (now w) of
        Some err \<Rightarrow> (Some err, served w (DeleteRequest ns name policy))
      | None \<Rightarrow>
          if list_ex (addressed (now w) ns name) (store w)
          then (None,
                served (w\<lparr>store :=
                   map (\<lambda>s. if addressed (now w) ns name s \<and> goneAt s = None
                             then s\<lparr>goneAt := Some (now w + terminates s)\<rparr> else s)
                     (store w)\<rparr>)
                  (DeleteRequest ns name policy))
          else (Some (Status NotFound (''pods '' @ name @ '' not found'')),
                served w (DeleteRequest ns name policy)))"

definition api_List :: "cluster \<Rightarrow> string \<Rightarrow> (error + Pod list) \<times> cluster" where
  "api_List w ns =
     (case faults w (now w) of
        Some err \<Rightarrow> (Inl err, served w (ListRequest ns))
      | None \<Rightarrow>
          (Inr (map object
                 (filter (\<lambda>s. present (now w) s \<and> Namespace (object s) = ns) (store w))),
           served w (ListRequest ns)))"

definition Sleep :: "nat \<Rightarrow> cluster \<Rightarrow> cluster" where
  "Sleep d w = w\<lparr>now := now w + d\<rparr>"

definition Microsecond :: nat where
  "Microsecond = 1000"

definition deletionTimeout :: nat where
  "deletionTimeout = 10 * (60 * 1000000000)"

text \<open>
  Of \<open>ContainerCreationExecContext\<close> the deletion path reads the embedded context and the
  pod handle, which is nil until \<open>createPod\<close> has stored the created object.
\<close>

record ContainerCreationExecContext =
  embedded :: ContainerExecContext
  pod :: "Pod option"

definition nilDereference :: string where
  "nilDereference = ''invalid memory address or nil pointer dereference''"

definition deletePod ::
  "ContainerCreationExecContext \<Rightarrow> cluster \<Rightarrow> error option exec \<times> cluster" where
  "deletePod c w =
     (case pod c of
        None \<Rightarrow> (Panics nilDereference, w)
      | Some p \<Rightarrow>
          (case api_Delete w (Namespace p) (Name p) Foreground of
             (Some err, w') \<Rightarrow> (Returns (Some (Wrap ''failed to delete pod: '' err)), w')
           | (None, w') \<Rightarrow> (Returns None, w')))"

definition listPods ::
  "ContainerCreationExecContext \<Rightarrow> cluster \<Rightarrow> (error + Pod list) exec \<times> cluster" where
  "listPods c w =
     (case pod c of
        None \<Rightarrow> (Panics nilDereference, w)
      | Some p \<Rightarrow>
          (case api_List w (Namespace p) of
             (Inl err, w') \<Rightarrow>
               (Returns (Inl (New (''failed to find pods: '' @ errorString err))), w')
           | (Inr pods, w') \<Rightarrow> (Returns (Inr pods), w')))"

text \<open>The inner loop of \<open>waitForPodToDelete\<close>: \<open>found\<close> starts false and is only set.\<close>

definition podFound :: "string \<Rightarrow> Pod list \<Rightarrow> bool" where
  "podFound name pods = fold (\<lambda>p found. if Name p = name then True else found) pods False"

lemma listPods_clock: "now w \<le> now (snd (listPods c w))"
  by (auto simp: listPods_def api_List_def served_def split: option.splits sum.splits prod.splits)

function waitForPodToDelete_loop ::
  "ContainerCreationExecContext \<Rightarrow> nat \<Rightarrow> cluster \<Rightarrow> error option exec \<times> cluster" where
  "waitForPodToDelete_loop c start w =
     (if now w - start \<le> deletionTimeout then
        (case listPods c w of
           (Panics msg, w') \<Rightarrow> (Panics msg, w')
         | (Returns (Inl err), w') \<Rightarrow> (Returns (Some err), w')
         | (Returns (Inr pods), w') \<Rightarrow>
             if \<not> podFound (podName (embedded c)) pods then (Returns None, w')
             else waitForPodToDelete_loop c start (Sleep Microsecond w'))
      else (Returns (Some (New ''pod has not terminated within the timeout'')), w))"
  by pat_completeness auto
termination
proof (relation "measure (\<lambda>(c, start, w). start + deletionTimeout + 1 - now w)")
  show "wf (measure (\<lambda>(c, start, w). start + deletionTimeout + 1 - now w))"
    by simp
next
  fix c :: ContainerCreationExecContext and start :: nat and w x w' r s pods
  assume within: "now w - start \<le> deletionTimeout"
    and listed: "(x, w') = listPods c w"
  from listed have "w' = snd (listPods c w)" by (metis snd_conv)
  with listPods_clock [of w c] have "now w \<le> now w'" by simp
  with within show "((c, start, Sleep Microsecond w'), (c, start, w))
      \<in> measure (\<lambda>(c, start, w). start + deletionTimeout + 1 - now w)"
    by (simp add: Sleep_def Microsecond_def)
qed

declare waitForPodToDelete_loop.simps [simp del]

definition waitForPodToDelete ::
  "ContainerCreationExecContext \<Rightarrow> cluster \<Rightarrow> error option exec \<times> cluster" where
  "waitForPodToDelete c w = waitForPodToDelete_loop c (now w) w"

definition DeletePodAndWait ::
  "ContainerCreationExecContext \<Rightarrow> cluster \<Rightarrow> error option exec \<times> cluster" where
  "DeletePodAndWait c w =
     (case deletePod c w of
        (Panics msg, w') \<Rightarrow> (Panics msg, w')
      | (Returns (Some err), w') \<Rightarrow> (Returns (Some err), w')
      | (Returns None, w') \<Rightarrow> waitForPodToDelete c w')"

section \<open>Collectors: data and environment\<close>

record PTPDeviceInfo =
  Timestamp :: string
  VendorID :: string
  DeviceID :: string
  devGNSSDev :: string

record DevDPLLInfo =
  dpllTimestamp :: string
  EECState :: string
  PPSState :: string
  PPSOffset :: string

record GNSSDevLines =
  gnssTimestamp :: string
  Dev :: string
  Lines :: string

text \<open>\<open>GPSDetails\<close>, its nested structs written as tuples of their fields in order.\<close>

record GPSDetails =
  NavStatus :: "string \<times> string"
  FirmwareVersion :: string
  AntennaDetails :: "(string \<times> int \<times> int \<times> int) list"
  NavClock :: "string \<times> int \<times> int"

text \<open>The values a collector keeps as \<open>interface{}\<close> and hands to \<open>json.Marshal\<close>.\<close>

datatype collected =
  DeviceInfoValue PTPDeviceInfo
| DPLLInfoValue DevDPLLInfo
| GNSSDevValue GNSSDevLines
| GPSNavValue GPSDetails

text \<open>
  What a collector calls outside itself: the device readers of package \<open>devices\<close> (they
  run commands in the container through a fetcher, and fail or succeed with the cluster),
  \<open>json.Marshal\<close>, and the sink \<open>callback.Call\<close>. Each is taken as given; those that
  reach the cluster or the sink pass the state \<open>'w\<close> along.
\<close>

record 'w Environment =
  GetPTPDeviceInfo ::
    "string \<Rightarrow> ContainerExecContext \<Rightarrow> 'w \<Rightarrow> (error + PTPDeviceInfo) \<times> 'w"
  GetDevDPLLInfo ::
    "ContainerExecContext \<Rightarrow> string \<Rightarrow> 'w \<Rightarrow> (error + DevDPLLInfo) \<times> 'w"
  ReadGNSSDev ::
    "ContainerExecContext \<Rightarrow> PTPDeviceInfo \<Rightarrow> int \<Rightarrow> int \<Rightarrow> 'w \<Rightarrow> (error + GNSSDevLines) \<times> 'w"
  GetGPSNav :: "ContainerExecContext \<Rightarrow> 'w \<Rightarrow> (error + GPSDetails) \<times> 'w"
  Marshal :: "collected \<Rightarrow> error + string"
  Call :: "string \<Rightarrow> string \<Rightarrow> string \<Rightarrow> 'w \<Rightarrow> error option \<times> 'w"

record PollResult =
  CollectorName :: string
  Errors :: "error list"

text \<open>
  A Go \<open>map[string]bool\<close> that is ranged over: an association list with one entry per
  key. The order of the entries stands for the order of one iteration, which Go leaves
  open; every property below holds for every order.
\<close>

fun mapSet :: "string \<Rightarrow> bool \<Rightarrow> (string \<times> bool) list \<Rightarrow> (string \<times> bool) list" where
  "mapSet k v [] = [(k, v)]"
| "mapSet k v (e # m) = (if fst e = k then (k, v) # m else e # mapSet k v m)"

definition mapDelete :: "string \<Rightarrow> (string \<times> bool) list \<Rightarrow> (string \<times> bool) list" where
  "mapDelete k m = filter (\<lambda>e. fst e \<noteq> k) m"

section \<open>PTP collector (PTPCollector)\<close>

definition PTPCollectorName :: string where "PTPCollectorName = ''PTP''"
definition VendorIntel :: string where "VendorIntel = ''0x8086''"
definition DeviceE810 :: string where "DeviceE810 = ''0x1593''"
definition DeviceInfo :: string where "DeviceInfo = ''device-info''"
definition DPLLInfo :: string where "DPLLInfo = ''dpll-info''"
definition GNSSDev :: string where "GNSSDev = ''gnss-dev''"
definition All_key :: string where "All_key = ''all''"
definition PTPNamespace :: string where "PTPNamespace = ''openshift-ptp''"
definition PodNamePrefix :: string where "PodNamePrefix = ''linuxptp-daemon-''"
definition PTPContainer :: string where "PTPContainer = ''linuxptp-daemon-container''"

definition ptpCollectables :: "string list" where
  "ptpCollectables = [DeviceInfo, DPLLInfo]"

text \<open>
  The collector. \<open>callback\<close> is the \<open>Call\<close> of the environment; \<open>runningPolls\<close> is
  the counter of the wait group; \<open>count\<close> is an \<open>int32\<close>; the mutex has no content in
  a sequential run.
\<close>

record PTPCollector =
  data :: "string \<rightharpoonup> collected"
  running :: "(string \<times> bool) list"
  DataTypes :: "string list"
  interfaceName :: string
  ctx :: ContainerExecContext
  runningPolls :: int
  count :: "32 word"

definition zeroPTPCollector :: PTPCollector where
  "zeroPTPCollector =
     \<lparr>data = Map.empty, running = [], DataTypes = [[], []], interfaceName = [],
      ctx = zeroContainerExecContext, runningPolls = 0, count = 0\<rparr>"

definition getNotCollectableError :: "string \<Rightarrow> error" where
  "getNotCollectableError key =
     New (''key '' @ key @ '' is not a colletable of *collectors.PTPCollector'')"

fun getErrorIfNotCollectable_loop :: "string list \<Rightarrow> string \<Rightarrow> error option" where
  "getErrorIfNotCollectable_loop [] key = Some (getNotCollectableError key)"
| "getErrorIfNotCollectable_loop (dataType # rest) key =
     (if dataType = key then None else getErrorIfNotCollectable_loop rest key)"

definition getErrorIfNotCollectable :: "PTPCollector \<Rightarrow> string \<Rightarrow> error option" where
  "getErrorIfNotCollectable ptpDev key = getErrorIfNotCollectable_loop (DataTypes ptpDev) key"

text \<open>\<open>Start\<close> and \<open>CleanUp\<close> return the error and the collector as the call leaves it.\<close>

definition PTPCollector_Start :: "PTPCollector \<Rightarrow> string \<Rightarrow> error option \<times> PTPCollector" where
  "PTPCollector_Start ptpDev key =
     (if key = All_key
      then (None, ptpDev\<lparr>running :=
              fold (\<lambda>dataType m. mapSet dataType True m) (DataTypes ptpDev) (running ptpDev)\<rparr>)
      else (case getErrorIfNotCollectable ptpDev key of
              Some err \<Rightarrow> (Some err, ptpDev)
            | None \<Rightarrow> (None, ptpDev\<lparr>running := mapSet key True (running ptpDev)\<rparr>)))"

definition PTPCollector_CleanUp :: "PTPCollector \<Rightarrow> string \<Rightarrow> error option \<times> PTPCollector" where
  "PTPCollector_CleanUp ptpDev key =
     (if key = All_key
      then (None, ptpDev\<lparr>running := []\<rparr>)
      else (case getErrorIfNotCollectable ptpDev key of
              Some err \<Rightarrow> (Some err, ptpDev)
            | None \<Rightarrow> (None, ptpDev\<lparr>running := mapDelete key (running ptpDev)\<rparr>)))"

text \<open>The end of \<open>fetchLine\<close>, after the switch: the result of \<open>json.Marshal\<close>.\<close>

definition marshalLine ::
  "'w Environment \<Rightarrow> string \<Rightarrow> collected \<Rightarrow> error + string" where
  "marshalLine env key v =
     (case Marshal env v of
        Inl err \<Rightarrow> Inl (Wrap (''failed to marshall line('' @ key @ '') in PTP collector: '') err)
      | Inr line \<Rightarrow> Inr line)"

definition fetchLine ::
  "'w Environment \<Rightarrow> PTPCollector \<Rightarrow> string \<Rightarrow> 'w \<Rightarrow> (error + string) \<times> PTPCollector \<times> 'w" where
  "fetchLine env ptpDev key w =
     (if key = DeviceInfo then
        (case GetPTPDeviceInfo env (interfaceName ptpDev) (ctx ptpDev) w of
           (Inl fetchError, w') \<Rightarrow>
             (Inl (Wrap ''failed to fetch ptpDevInfo '' fetchError), ptpDev, w')
         | (Inr ptpDevInfo, w') \<Rightarrow>
             (marshalLine env key (DeviceInfoValue ptpDevInfo),
              ptpDev\<lparr>data := (data ptpDev)(DeviceInfo \<mapsto> DeviceInfoValue ptpDevInfo)\<rparr>, w'))
      else if key = DPLLInfo then
        (case GetDevDPLLInfo env (ctx ptpDev) (interfaceName ptpDev) w of
           (Inl fetchError, w') \<Rightarrow>
             (Inl (Wrap ''failed to fetch dpllInfo '' fetchError), ptpDev, w')
         | (Inr dpllInfo, w') \<Rightarrow>
             (marshalLine env key (DPLLInfoValue dpllInfo),
              ptpDev\<lparr>data := (data ptpDev)(DPLLInfo \<mapsto> DPLLInfoValue dpllInfo)\<rparr>, w'))
      else if key = GNSSDev then
        (case data ptpDev DeviceInfo of
           Some (DeviceInfoValue devInfo) \<Rightarrow>
             (case ReadGNSSDev env (ctx ptpDev) devInfo 1 1 w of
                (Inl fetchError, w') \<Rightarrow>
                  (Inl (Wrap ''failed to fetch gnssDevLine '' fetchError), ptpDev, w')
              | (Inr gnssDevLine, w') \<Rightarrow>
                  (marshalLine env key (GNSSDevValue gnssDevLine),
                   ptpDev\<lparr>data := (data ptpDev)(GNSSDev \<mapsto> GNSSDevValue gnssDevLine)\<rparr>, w'))
         | _ \<Rightarrow> (Inl (New ''not able to unpack DeviceInfo %!w(<nil>)''), ptpDev, w))
      else (Inl (getNotCollectableError key), ptpDev, w))"

text \<open>
  The loop of \<open>Poll\<close> over the entries of \<open>running\<close>. Beside the collector, the
  errors and the cluster it carries a record of the attempts: each key handed to
  \<open>fetchLine\<close>, with the error of its fetch or of its sink call if one failed. The record
  is not program state; the properties of \<open>Poll\<close> are stated on it.
\<close>

fun PTPCollector_Poll_loop ::
  "'w Environment \<Rightarrow> (string \<times> bool) list \<Rightarrow> PTPCollector \<Rightarrow> error list
     \<Rightarrow> (string \<times> error option) list \<Rightarrow> 'w
     \<Rightarrow> PTPCollector \<times> error list \<times> (string \<times> error option) list \<times> 'w" where
  "PTPCollector_Poll_loop env [] ptpDev errorsToReturn attempts w =
     (ptpDev, errorsToReturn, attempts, w)"
| "PTPCollector_Poll_loop env ((key, isRunning) # rest) ptpDev errorsToReturn attempts w =
     (if isRunning then
        (case fetchLine env ptpDev key w of
           (Inl err, ptpDev', w') \<Rightarrow>
             PTPCollector_Poll_loop env rest ptpDev' (errorsToReturn @ [err])
               (attempts @ [(key, Some err)]) w'
         | (Inr line, ptpDev', w') \<Rightarrow>
             (case Call env ''*collectors.PTPCollector'' key line w' of
                (Some err, w'') \<Rightarrow>
                  PTPCollector_Poll_loop env rest ptpDev' (errorsToReturn @ [err])
                    (attempts @ [(key, Some err)]) w''
              | (None, w'') \<Rightarrow>
                  PTPCollector_Poll_loop env rest ptpDev' errorsToReturn
                    (attempts @ [(key, None)]) w''))
      else PTPCollector_Poll_loop env rest ptpDev errorsToReturn attempts w)"

text \<open>
  \<open>Poll\<close> returns the collector, the results channel (its contents in the order sent),
  the cluster and the record of the attempts.
\<close>

definition PTPCollector_Poll ::
  "'w Environment \<Rightarrow> PTPCollector \<Rightarrow> PollResult list \<Rightarrow> 'w
     \<Rightarrow> PTPCollector \<times> PollResult list \<times> 'w \<times> (string \<times> error option) list" where
  "PTPCollector_Poll env ptpDev resultsChan w =
     (let started = ptpDev\<lparr>runningPolls := runningPolls ptpDev + 1\<rparr>
      in case PTPCollector_Poll_loop env (running started) started [] [] w of
           (polled, errorsToReturn, attempts, w') \<Rightarrow>
             (polled\<lparr>count := count polled + 1, runningPolls := runningPolls polled - 1\<rparr>,
              resultsChan @ [\<lparr>CollectorName = PTPCollectorName, Errors = errorsToReturn\<rparr>],
              w', attempts))"

text \<open>The keys of a collector that are running: those whose entry holds true.\<close>

definition runningKeys :: "PTPCollector \<Rightarrow> string list" where
  "runningKeys ptpDev = map fst (filter snd (running ptpDev))"

record CollectionConstuctor =
  PTPInterface :: string

definition NewPTPCollector ::
  "'w Clientset \<Rightarrow> 'w Environment \<Rightarrow> CollectionConstuctor \<Rightarrow> 'w
     \<Rightarrow> (PTPCollector \<times> error option) \<times> 'w" where
  "NewPTPCollector clientset env constuctor w =
     (case NewContainerContext clientset w PTPNamespace PodNamePrefix PTPContainer of
        (_, Some err) \<Rightarrow>
          ((zeroPTPCollector, Some (Wrap ''could not create container context '' err)), w)
      | (newCtx, None) \<Rightarrow>
          (case GetPTPDeviceInfo env (PTPInterface constuctor) newCtx w of
             (Inl err, w1) \<Rightarrow>
               ((zeroPTPCollector, Some (Wrap ''failed to fetch initial DeviceInfo '' err)), w1)
           | (Inr devInfo, w1) \<Rightarrow>
               (case GetDevDPLLInfo env newCtx (PTPInterface constuctor) w1 of
                  (Inl err, w2) \<Rightarrow>
                    ((zeroPTPCollector,
                      Some (Wrap ''failed to fetch initial DevDPLLInfo '' err)), w2)
                | (Inr dpllInfo, w2) \<Rightarrow>
                    (let newData = (Map.empty(DeviceInfo \<mapsto> DeviceInfoValue devInfo))
                                     (DPLLInfo \<mapsto> DPLLInfoValue dpllInfo)
                     in case newData DeviceInfo of
                          Some (DeviceInfoValue ptpDevInfo) \<Rightarrow>
                            if VendorID ptpDevInfo \<noteq> VendorIntel
                               \<or> DeviceID ptpDevInfo \<noteq> DeviceE810
                            then ((zeroPTPCollector,
                                   Some (New ''NIC device is not based on E810'')), w2)
                            else ((\<lparr>data = newData, running = [],
                                    DataTypes = ptpCollectables,
                                    interfaceName = PTPInterface constuctor, ctx = newCtx,
                                    runningPolls = 0, count = 0\<rparr>, None), w2)
                        | _ \<Rightarrow>
                            ((zeroPTPCollector,
                              Some (New ''DeviceInfo was not able to be unpacked'')), w2)))))"

section \<open>GPS collector (pkg/collectors/gps_ubx_collector.go)\<close>

definition GPSCollectorName :: string where "GPSCollectorName = ''GPS-UBX''"
definition GPSNavKey :: string where "GPSNavKey = ''gpsNav''"
definition ubxCollectables :: "string list" where "ubxCollectables = [GPSNavKey]"
definition GPSContainer :: string where "GPSContainer = ''gpsd''"

record GPSCollector =
  gpsDataTypes :: "string list"
  gpsInterfaceName :: string
  gpsCtx :: ContainerExecContext
  gpsRunningPolls :: int
  gpsCount :: "32 word"
  gpsRunning :: bool

definition GPSCollector_Start :: "GPSCollector \<Rightarrow> string \<Rightarrow> error option \<times> GPSCollector" where
  "GPSCollector_Start gps key =
     (if key = All_key \<or> key = GPSNavKey
      then (None, gps\<lparr>gpsRunning := True\<rparr>)
      else (Some (New (''key '' @ key @ '' is not a colletable of *collectors.GPSCollector'')),
            gps))"

definition GPSCollector_CleanUp :: "GPSCollector \<Rightarrow> string \<Rightarrow> error option \<times> GPSCollector" where
  "GPSCollector_CleanUp gps key =
     (if key = All_key \<or> key = GPSNavKey
      then (None, gps\<lparr>gpsRunning := False\<rparr>)
      else (Some (New (''key '' @ key @ '' is not a colletable of *collectors.GPSCollector'')),
            gps))"

text \<open>
  \<open>Poll\<close> of the GPS collector, with the same four results as the one of the PTP
  collector. Every early return sends its result first; the deferred \<open>Done\<close> runs on
  each of them.
\<close>

definition GPSCollector_Poll ::
  "'w Environment \<Rightarrow> GPSCollector \<Rightarrow> PollResult list \<Rightarrow> 'w
     \<Rightarrow> GPSCollector \<times> PollResult list \<times> 'w \<times> (string \<times> error option) list" where
  "GPSCollector_Poll env gps resultsChan w =
     (let started = gps\<lparr>gpsRunningPolls := gpsRunningPolls gps + 1\<rparr>;
          finished = started\<lparr>gpsRunningPolls := gpsRunningPolls started - 1\<rparr>
      in case GetGPSNav env (gpsCtx started) w of
           (Inl err, w') \<Rightarrow>
             (finished,
              resultsChan @ [\<lparr>CollectorName = GPSCollectorName, Errors = [err]\<rparr>],
              w', [(GPSNavKey, Some err)])
         | (Inr gpsNav, w') \<Rightarrow>
             (case Marshal env (GPSNavValue gpsNav) of
                Inl err \<Rightarrow>
                  (finished,
                   resultsChan @ [\<lparr>CollectorName = GPSCollectorName, Errors = [err]\<rparr>],
                   w', [(GPSNavKey, Some err)])
              | Inr line \<Rightarrow>
                  (case Call env ''*collectors.GPSCollector'' GPSNavKey line w' of
                     (Some err, w'') \<Rightarrow>
                       (finished,
                        resultsChan @ [\<lparr>CollectorName = GPSCollectorName, Errors = [err]\<rparr>],
                        w'', [(GPSNavKey, Some err)])
                   | (None, w'') \<Rightarrow>
                       (finished\<lparr>gpsCount := gpsCount finished + 1\<rparr>,
                        resultsChan @ [\<lparr>CollectorName = GPSCollectorName, Errors = []\<rparr>],
                        w'', [(GPSNavKey, None)]))))"

definition gpsRunningKeys :: "GPSCollector \<Rightarrow> string list" where
  "gpsRunningKeys gps = (if gpsRunning gps then [GPSNavKey] else [])"

definition NewGPSCollector ::
  "'w Clientset \<Rightarrow> CollectionConstuctor \<Rightarrow> 'w \<Rightarrow> GPSCollector \<times> error option" where
  "NewGPSCollector clientset constuctor w =
     (case NewContainerContext clientset w PTPNamespace PodNamePrefix GPSContainer of
        (_, Some err) \<Rightarrow>
          (\<lparr>gpsDataTypes = [[]], gpsInterfaceName = [], gpsCtx = zeroContainerExecContext,
            gpsRunningPolls = 0, gpsCount = 0, gpsRunning = False\<rparr>,
           Some (Wrap ''could not create container context '' err))
      | (newCtx, None) \<Rightarrow>
          (\<lparr>gpsDataTypes = ubxCollectables, gpsInterfaceName = PTPInterface constuctor,
            gpsCtx = newCtx, gpsRunningPolls = 0, gpsCount = 0, gpsRunning = False\<rparr>, None))"

section \<open>GNSS version check (pkg/vaildations/gnss.go)\<close>

text \<open>
  \<open>strings.Index\<close> and \<open>strings.Split\<close> of the Go library. \<open>Index\<close> is the position
  of the first occurrence, \<open>None\<close> for Go's -1. \<open>Split\<close> cuts at every occurrence of a
  non-empty separator from left to right, and gives one string per character for the empty
  separator.
\<close>

fun Index :: "string \<Rightarrow> string \<Rightarrow> nat option" where
  "Index [] substr = (if substr = [] then Some 0 else None)"
| "Index (c # s) substr =
     (if prefix substr (c # s) then Some 0 else map_option Suc (Index s substr))"

lemma Index_bound: "Index s substr = Some m \<Longrightarrow> m + length substr \<le> length s"
proof (induction s arbitrary: m)
  case Nil
  then show ?case by (simp split: if_splits)
next
  case (Cons c s)
  show ?case
  proof (cases "prefix substr (c # s)")
    case True
    with Cons.prems have "m = 0" by simp
    with prefix_length_le [OF True] show ?thesis by simp
  next
    case False
    with Cons.prems obtain k where "Index s substr = Some k" "m = Suc k" by auto
    with Cons.IH [of k] show ?thesis by simp
  qed
qed

function genSplit :: "string \<Rightarrow> string \<Rightarrow> string list" where
  "genSplit s sep =
     (if sep = [] then map (\<lambda>c. [c]) s
      else (case Index s sep of
              None \<Rightarrow> [s]
            | Some m \<Rightarrow> take m s # genSplit (drop (m + length sep) s) sep))"
  by pat_completeness auto
termination
proof (relation "measure (\<lambda>(s, sep). length s)")
  show "wf (measure (\<lambda>(s, sep). length s))" by simp
next
  fix s sep :: string and m :: nat
  assume "sep \<noteq> []" and "Index s sep = Some m"
  then have "m + length sep \<le> length s" and "Suc 0 \<le> length sep"
    by (simp_all add: Index_bound Suc_le_eq)
  then have "length s - (m + length sep) < length s"
    by linarith
  then show "((drop (m + length sep) s, sep), (s, sep)) \<in> measure (\<lambda>(s, sep). length s)"
    by simp
qed

declare genSplit.simps [simp del]

definition Split :: "string \<Rightarrow> string \<Rightarrow> string list" where
  "Split s sep = genSplit s sep"

record VersionCheck =
  checkID :: string
  Version :: string
  checkVersion :: string
  minVersion :: string

definition gnssID :: string where "gnssID = ''GNSS Version is valid''"
definition MinGNSSVersion :: string where "MinGNSSVersion = ''2.20''"

text \<open>\<open>parts[1]\<close> panics when the slice has fewer than two elements.\<close>

definition NewGNSS :: "GPSDetails \<Rightarrow> VersionCheck exec" where
  "NewGNSS gnss =
     (let parts = Split (FirmwareVersion gnss) '' ''
      in if 1 < length parts
         then Returns \<lparr>checkID = gnssID, Version = FirmwareVersion gnss,
                       checkVersion = parts ! 1, minVersion = MinGNSSVersion\<rparr>
         else Panics ''index out of range [1]'')"

section \<open>Sequences of Start and CleanUp calls\<close>

datatype call = StartCall string | CleanUpCall string

fun applyCall :: "PTPCollector \<Rightarrow> call \<Rightarrow> error option \<times> PTPCollector" where
  "applyCall ptpDev (StartCall key) = PTPCollector_Start ptpDev key"
| "applyCall ptpDev (CleanUpCall key) = PTPCollector_CleanUp ptpDev key"

fun applyCalls :: "PTPCollector \<Rightarrow> call list \<Rightarrow> PTPCollector" where
  "applyCalls ptpDev [] = ptpDev"
| "applyCalls ptpDev (x # xs) = applyCalls (snd (applyCall ptpDev x)) xs"

section \<open>A sample cluster and environment\<close>

text \<open>
  Concrete surroundings for evaluating the model. The state of the cluster is the list
  of the remote calls made so far.
\<close>

definition sampleClientset :: "string list Clientset" where
  "sampleClientset =
     \<lparr>FindPodNameFromPrefix = (\<lambda>w ns namePrefix. Inr (namePrefix @ ''new'')),
      NewSPDYExecutor = (\<lambda>w req. None),
      StreamWithContext = (\<lambda>w req stdin.
        if reqName req = ''linuxptp-daemon-old''
        then ((''partial'', ''warning'',
               Some (Status NotFound ''pods linuxptp-daemon-old not found'')),
              w @ [''exec in '' @ reqName req])
        else ((''done'', [], None), w @ [''exec in '' @ reqName req]))\<rparr>"

definition sampleEnvironment :: "string list Environment" where
  "sampleEnvironment =
     \<lparr>GetPTPDeviceInfo = (\<lambda>interface c w.
        (Inr \<lparr>Timestamp = [], VendorID = ''0x8086'', DeviceID = ''0x1593'',
              devGNSSDev = ''/dev/gnss0''\<rparr>, w @ [''GetPTPDeviceInfo''])),
      GetDevDPLLInfo = (\<lambda>c interface w.
        (Inr \<lparr>dpllTimestamp = [], EECState = ''3'', PPSState = ''3'', PPSOffset = ''0''\<rparr>,
         w @ [''GetDevDPLLInfo''])),
      ReadGNSSDev = (\<lambda>c devInfo lines timeoutSeconds w.
        (Inr \<lparr>gnssTimestamp = [], Dev = devGNSSDev devInfo, Lines = []\<rparr>,
         w @ [''ReadGNSSDev''])),
      GetGPSNav = (\<lambda>c w.
        (Inr \<lparr>NavStatus = ([], ''3''), FirmwareVersion = ''TIM 2.20'', AntennaDetails = [],
              NavClock = ([], 0, 0)\<rparr>, w @ [''GetGPSNav''])),
      Marshal = (\<lambda>v. Inr ''{}''),
      Call = (\<lambda>name key line w. (None, w @ [''Call '' @ key]))\<rparr>"

text \<open>The same environment with the GPS receiver out of reach.\<close>

definition unreachableEnvironment :: "string list Environment" where
  "unreachableEnvironment =
     sampleEnvironment\<lparr>GetGPSNav :=
       (\<lambda>c w. (Inl (New ''gpsd unreachable''), w @ [''GetGPSNav'']))\<rparr>"

text \<open>The same environment with a network card that is not an E810.\<close>

definition otherCardEnvironment :: "string list Environment" where
  "otherCardEnvironment =
     sampleEnvironment\<lparr>GetPTPDeviceInfo := (\<lambda>interface c w.
        (Inr \<lparr>Timestamp = [], VendorID = ''0x8086'', DeviceID = ''0x1592'',
              devGNSSDev = ''/dev/gnss0''\<rparr>, w @ [''GetPTPDeviceInfo'']))\<rparr>"

definition sampleContext :: ContainerExecContext where
  "sampleContext =
     \<lparr>namespace = ''openshift-ptp'', podName = ''linuxptp-daemon-old'',
      containerName = ''gpsd'', podNamePrefix = ''linuxptp-daemon-''\<rparr>"

text \<open>A GPS collector as its constructor returns it: not running.\<close>

definition idleGPSCollector :: GPSCollector where
  "idleGPSCollector =
     \<lparr>gpsDataTypes = [''gpsNav''], gpsInterfaceName = ''ens1f0'', gpsCtx = sampleContext,
      gpsRunningPolls = 0, gpsCount = 0, gpsRunning = False\<rparr>"

text \<open>A PTP collector as its constructor returns it: no key running.\<close>

definition idlePTPCollector :: PTPCollector where
  "idlePTPCollector =
     \<lparr>data = Map.empty, running = [], DataTypes = [''device-info'', ''dpll-info''],
      interfaceName = ''ens1f0'', ctx = sampleContext, runningPolls = 0, count = 0\<rparr>"

section \<open>Properties of the collector selection\<close>

lemma isIn_set: "isIn name arr = (name \<in> set arr)"
  by (induction arr) auto

lemma removeDuplicates_loop_set:
  "set (removeDuplicates_loop res arr) = set res \<union> set arr"
  by (induction arr arbitrary: res) (auto simp: isIn_set)

lemma removeDuplicates_loop_distinct:
  "distinct res \<Longrightarrow> distinct (removeDuplicates_loop res arr)"
  by (induction arr arbitrary: res) (auto simp: isIn_set)

lemma removeDuplicates_loop_prefix:
  "prefix res (removeDuplicates_loop res arr)"
proof (induction arr arbitrary: res)
  case Nil
  show ?case by simp
next
  case (Cons name arr)
  from Cons [of "res @ [name]"] Cons [of res] show ?case
    by (auto dest: append_prefixD)
qed

lemma removeDuplicates_loop_append:
  "removeDuplicates_loop res (xs @ ys) =
     removeDuplicates_loop (removeDuplicates_loop res xs) ys"
  by (induction xs arbitrary: res) auto

lemma removeDuplicates_loop_id:
  "distinct xs \<Longrightarrow> set res \<inter> set xs = {} \<Longrightarrow> removeDuplicates_loop res xs = res @ xs"
  by (induction xs arbitrary: res) (auto simp: isIn_set)

lemma removeDuplicates_distinct: "distinct (removeDuplicates arr)"
  by (simp add: removeDuplicates_def removeDuplicates_loop_distinct)

lemma removeDuplicates_set: "set (removeDuplicates arr) = set arr"
  by (simp add: removeDuplicates_def removeDuplicates_loop_set)

lemma removeDuplicates_prefix:
  "distinct xs \<Longrightarrow> prefix xs (removeDuplicates (xs @ ys))"
  by (simp add: removeDuplicates_def removeDuplicates_loop_append
      removeDuplicates_loop_id removeDuplicates_loop_prefix)

lemma GetCollectorsToRun_loop_prefix:
  "distinct cn \<Longrightarrow> prefix cn (GetCollectorsToRun_loop optional cn sel)"
proof (induction sel arbitrary: cn)
  case Nil
  show ?case by simp
next
  case (Cons name rest)
  have step: "prefix cn (GetCollectorsToRun_loop optional (cn @ [name]) rest)"
    if "name \<notin> set cn"
  proof -
    from that Cons.prems have "distinct (cn @ [name])" by simp
    then have "prefix (cn @ [name]) (GetCollectorsToRun_loop optional (cn @ [name]) rest)"
      by (rule Cons.IH)
    then show ?thesis by (rule append_prefixD)
  qed
  from Cons.prems Cons.IH [of cn] step show ?case
    by (simp add: isIn_set removeDuplicates_prefix)
qed

lemma GetCollectorsToRun_loop_distinct:
  "distinct cn \<Longrightarrow> distinct (GetCollectorsToRun_loop optional cn sel)"
  by (induction sel arbitrary: cn) (auto simp: isIn_set removeDuplicates_distinct)

lemma GetCollectorsToRun_loop_subset:
  "set (GetCollectorsToRun_loop optional cn sel) \<subseteq> set cn \<union> set optional"
proof (induction sel arbitrary: cn)
  case Nil
  show ?case by simp
next
  case (Cons name rest)
  from Cons [of cn] Cons [of "cn @ [name]"] show ?case
    by (auto simp: isIn_set removeDuplicates_set)
qed

lemma GetCollectorsToRun_loop_all:
  "\<exists>name \<in> set sel. EqualFold name ''all'' \<Longrightarrow>
     set optional \<subseteq> set (GetCollectorsToRun_loop optional cn sel)"
proof (induction sel arbitrary: cn)
  case Nil
  then show ?case by simp
next
  case (Cons name rest)
  show ?case
  proof (cases "EqualFold name ''all''")
    case True
    then show ?thesis by (simp add: removeDuplicates_set)
  next
    case False
    with Cons.prems have "\<exists>n \<in> set rest. EqualFold n ''all''" by auto
    with Cons.IH False show ?thesis by simp
  qed
qed

text \<open>
  Claim C3. With the Required names registered without repetition, the selection of any
  request list starts with the Required names, holds every Optional name when the request
  has a name equal to "all" up to letter case, holds only Required and Optional names (an
  unrecognised name is dropped and the function always returns a list), and has no
  duplicates. The request ["all"] with Required ["DevInfo"] and Optional ["DPLL", "GPS"]
  gives ["DevInfo", "DPLL", "GPS"].
\<close>

theorem GetCollectorsToRun_selection:
  assumes "distinct required"
  shows "prefix required (GetCollectorsToRun required optional selected)
       \<and> ((\<exists>name \<in> set selected. EqualFold name ''all'') \<longrightarrow>
            set optional \<subseteq> set (GetCollectorsToRun required optional selected))
       \<and> set (GetCollectorsToRun required optional selected) \<subseteq> set required \<union> set optional
       \<and> distinct (GetCollectorsToRun required optional selected)
       \<and> GetCollectorsToRun [''DevInfo''] [''DPLL'', ''GPS''] [''all'']
            = [''DevInfo'', ''DPLL'', ''GPS'']"
proof -
  have scenario: "GetCollectorsToRun [''DevInfo''] [''DPLL'', ''GPS''] [''all'']
      = [''DevInfo'', ''DPLL'', ''GPS'']"
    by (simp add: GetCollectorsToRun_def EqualFold_def removeDuplicates_def)
  from assms scenario show ?thesis
    unfolding GetCollectorsToRun_def
    using GetCollectorsToRun_loop_prefix [of required optional selected]
      GetCollectorsToRun_loop_all [of selected optional required]
      GetCollectorsToRun_loop_subset [of optional required selected]
      GetCollectorsToRun_loop_distinct [of required optional selected]
    by simp
qed

theorem GetCollectorsToRun_selection_witness:
  "distinct [''DevInfo'']
   \<and> EqualFold ''All'' ''all''
   \<and> GetCollectorsToRun [''DevInfo''] [''DPLL'', ''GPS''] [''GPS'', ''nope'', ''All'']
       = [''DevInfo'', ''GPS'', ''DPLL'']
   \<and> prefix [''DevInfo'']
       (GetCollectorsToRun [''DevInfo''] [''DPLL'', ''GPS''] [''GPS'', ''nope'', ''All''])
   \<and> set [''DPLL'', ''GPS'']
       \<subseteq> set (GetCollectorsToRun [''DevInfo''] [''DPLL'', ''GPS''] [''GPS'', ''nope'', ''All''])
   \<and> distinct (GetCollectorsToRun [''DevInfo''] [''DPLL'', ''GPS''] [''GPS'', ''nope'', ''All''])"
proof -
  have req: "distinct [''DevInfo'']" by simp
  have fold: "EqualFold ''All'' ''all''"
    by code_simp
  have run: "GetCollectorsToRun [''DevInfo''] [''DPLL'', ''GPS''] [''GPS'', ''nope'', ''All'']
      = [''DevInfo'', ''GPS'', ''DPLL'']"
    by code_simp
  from fold have ex: "\<exists>name \<in> set [''GPS'', ''nope'', ''All'']. EqualFold name ''all''"
    by simp
  from GetCollectorsToRun_selection
    [OF req, of "[''DPLL'', ''GPS'']" "[''GPS'', ''nope'', ''All'']"] ex
  have "prefix [''DevInfo'']
          (GetCollectorsToRun [''DevInfo''] [''DPLL'', ''GPS''] [''GPS'', ''nope'', ''All''])"
    and "set [''DPLL'', ''GPS'']
          \<subseteq> set (GetCollectorsToRun [''DevInfo''] [''DPLL'', ''GPS''] [''GPS'', ''nope'', ''All''])"
    and "distinct (GetCollectorsToRun [''DevInfo''] [''DPLL'', ''GPS''] [''GPS'', ''nope'', ''All''])"
    by blast+
  with req fold run show ?thesis by blast
qed

text \<open>
  Claim C4. The selection compares a requested name with the Optional names by \<open>==\<close>:
  the request ["dpll"] selects the Required collector only, although "DPLL" is an Optional
  name. The request ["dpll", "DPLL"] gives ["DevInfo", "DPLL"] because its second name
  matches exactly while the first is dropped as unknown.
\<close>

theorem GetCollectorsToRun_names_case_sensitive:
  "GetCollectorsToRun [''DevInfo''] [''DPLL'', ''GPS''] [''dpll''] = [''DevInfo'']
   \<and> GetCollectorsToRun [''DevInfo''] [''DPLL'', ''GPS''] [''dpll'', ''DPLL'']
       = [''DevInfo'', ''DPLL'']"
  by code_simp

section \<open>Properties of the GNSS version check\<close>

lemma Index_single:
  "Index s [c] = (if c \<in> set s then Some (length (takeWhile (\<lambda>x. x \<noteq> c) s)) else None)"
  by (induction s) auto

lemma drop_takeWhile_tl:
  "c \<in> set s \<Longrightarrow> drop (Suc (length (takeWhile (\<lambda>x. x \<noteq> c) s))) s = tl (dropWhile (\<lambda>x. x \<noteq> c) s)"
  by (induction s) auto

lemma take_takeWhile_length: "take (length (takeWhile P s)) s = takeWhile P s"
  by (induction s) auto

lemma takeWhile_absent: "c \<notin> set s \<Longrightarrow> takeWhile (\<lambda>x. x \<noteq> c) s = s"
  by (induction s) auto

lemma genSplit_single_absent: "c \<notin> set s \<Longrightarrow> genSplit s [c] = [s]"
  by (subst genSplit.simps) (simp add: Index_single)

lemma genSplit_single_present:
  "c \<in> set s \<Longrightarrow> genSplit s [c] =
     takeWhile (\<lambda>x. x \<noteq> c) s # genSplit (tl (dropWhile (\<lambda>x. x \<noteq> c) s)) [c]"
  by (subst genSplit.simps) (simp add: Index_single drop_takeWhile_tl take_takeWhile_length)

lemma genSplit_single_head:
  "\<exists>rest. genSplit s [c] = takeWhile (\<lambda>x. x \<noteq> c) s # rest"
proof (cases "c \<in> set s")
  case True
  then show ?thesis by (simp add: genSplit_single_present)
next
  case False
  then have "genSplit s [c] = takeWhile (\<lambda>x. x \<noteq> c) s # []"
    by (simp add: genSplit_single_absent takeWhile_absent)
  then show ?thesis ..
qed

text \<open>
  Claim C10. \<open>NewGNSS\<close> splits the firmware version at spaces and reads the element
  of index 1. When the firmware version has a space the split has at least two elements
  and \<open>checkVersion\<close> is the second token: the characters after the first space up to
  the next space or the end. When it has no space the split has one element and the index
  is out of range: the call panics.
\<close>

theorem NewGNSS_second_token:
  "(CHR '' '' \<in> set (FirmwareVersion gnss) \<longrightarrow>
      1 < length (Split (FirmwareVersion gnss) '' '') \<and>
      NewGNSS gnss = Returns \<lparr>checkID = gnssID, Version = FirmwareVersion gnss,
        checkVersion = takeWhile (\<lambda>c. c \<noteq> CHR '' '')
                         (tl (dropWhile (\<lambda>c. c \<noteq> CHR '' '') (FirmwareVersion gnss))),
        minVersion = MinGNSSVersion\<rparr>)
   \<and> (CHR '' '' \<notin> set (FirmwareVersion gnss) \<longrightarrow>
        length (Split (FirmwareVersion gnss) '' '') = 1 \<and>
        NewGNSS gnss = Panics ''index out of range [1]'')"
proof (intro conjI impI)
  assume sp: "CHR '' '' \<in> set (FirmwareVersion gnss)"
  let ?fw = "FirmwareVersion gnss"
  let ?rest = "tl (dropWhile (\<lambda>c. c \<noteq> CHR '' '') ?fw)"
  obtain more where more: "genSplit ?rest '' '' = takeWhile (\<lambda>c. c \<noteq> CHR '' '') ?rest # more"
    using genSplit_single_head by blast
  with sp have parts: "Split ?fw '' '' =
      takeWhile (\<lambda>c. c \<noteq> CHR '' '') ?fw # takeWhile (\<lambda>c. c \<noteq> CHR '' '') ?rest # more"
    by (simp add: Split_def genSplit_single_present)
  then show "1 < length (Split ?fw '' '')" by simp
  from parts show "NewGNSS gnss = Returns \<lparr>checkID = gnssID, Version = ?fw,
        checkVersion = takeWhile (\<lambda>c. c \<noteq> CHR '' '') ?rest, minVersion = MinGNSSVersion\<rparr>"
    by (simp add: NewGNSS_def)
next
  assume "CHR '' '' \<notin> set (FirmwareVersion gnss)"
  then have one: "Split (FirmwareVersion gnss) '' '' = [FirmwareVersion gnss]"
    by (simp add: Split_def genSplit_single_absent)
  then show "length (Split (FirmwareVersion gnss) '' '') = 1" by simp
  from one show "NewGNSS gnss = Panics ''index out of range [1]''"
    by (simp add: NewGNSS_def)
qed

theorem NewGNSS_second_token_witness:
  "CHR '' '' \<in> set ''TIM 2.20''
   \<and> NewGNSS \<lparr>NavStatus = ([], []), FirmwareVersion = ''TIM 2.20'', AntennaDetails = [],
               NavClock = ([], 0, 0)\<rparr>
       = Returns \<lparr>checkID = gnssID, Version = ''TIM 2.20'', checkVersion = ''2.20'',
                   minVersion = MinGNSSVersion\<rparr>
   \<and> CHR '' '' \<notin> set ''2.20''
   \<and> NewGNSS \<lparr>NavStatus = ([], []), FirmwareVersion = ''2.20'', AntennaDetails = [],
               NavClock = ([], 0, 0)\<rparr>
       = Panics ''index out of range [1]''"
  using NewGNSS_second_token [of "\<lparr>NavStatus = ([], []), FirmwareVersion = ''TIM 2.20'',
      AntennaDetails = [], NavClock = ([], 0, 0)\<rparr>"]
    NewGNSS_second_token [of "\<lparr>NavStatus = ([], []), FirmwareVersion = ''2.20'',
      AntennaDetails = [], NavClock = ([], 0, 0)\<rparr>"]
  by simp

section \<open>Properties of Start and CleanUp\<close>

lemma getErrorIfNotCollectable_loop_None:
  "(getErrorIfNotCollectable_loop dataTypes key = None) = (key \<in> set dataTypes)"
  by (induction dataTypes) auto

lemma running_mapSet:
  "set (map fst (filter snd (mapSet k v m))) \<subseteq> insert k (set (map fst (filter snd m)))"
  by (induction m) auto

lemma running_mapDelete:
  "set (map fst (filter snd (mapDelete k m))) \<subseteq> set (map fst (filter snd m))"
  by (auto simp: mapDelete_def)

lemma running_fold_mapSet:
  "set (map fst (filter snd (fold (\<lambda>dataType m. mapSet dataType True m) ks m)))
     \<subseteq> set ks \<union> set (map fst (filter snd m))"
proof (induction ks arbitrary: m)
  case Nil
  show ?case by simp
next
  case (Cons k ks)
  from Cons [of "mapSet k True m"] running_mapSet [of k True m] show ?case
    by auto
qed

lemma Start_DataTypes: "DataTypes (snd (PTPCollector_Start c key)) = DataTypes c"
  by (simp add: PTPCollector_Start_def split: option.splits)

lemma CleanUp_DataTypes: "DataTypes (snd (PTPCollector_CleanUp c key)) = DataTypes c"
  by (simp add: PTPCollector_CleanUp_def split: option.splits)

lemma Start_running:
  assumes "set (runningKeys c) \<subseteq> set (DataTypes c)"
  shows "set (runningKeys (snd (PTPCollector_Start c key))) \<subseteq> set (DataTypes c)"
proof -
  from assms have old: "set (map fst (filter snd (running c))) \<subseteq> set (DataTypes c)"
    unfolding runningKeys_def .
  show ?thesis
  proof (cases "key = All_key")
    case True
    then have "runningKeys (snd (PTPCollector_Start c key)) =
        map fst (filter snd
          (fold (\<lambda>dataType m. mapSet dataType True m) (DataTypes c) (running c)))"
      unfolding runningKeys_def PTPCollector_Start_def by simp
    moreover from old running_fold_mapSet [of "DataTypes c" "running c"]
    have "set (map fst (filter snd
          (fold (\<lambda>dataType m. mapSet dataType True m) (DataTypes c) (running c))))
        \<subseteq> set (DataTypes c)"
      by blast
    ultimately show ?thesis by (simp only:)
  next
    case False
    show ?thesis
    proof (cases "key \<in> set (DataTypes c)")
      case True
      then have "getErrorIfNotCollectable c key = None"
        by (simp add: getErrorIfNotCollectable_def getErrorIfNotCollectable_loop_None)
      with False have "runningKeys (snd (PTPCollector_Start c key)) =
          map fst (filter snd (mapSet key True (running c)))"
        unfolding runningKeys_def PTPCollector_Start_def by simp
      moreover from old True running_mapSet [of key True "running c"]
      have "set (map fst (filter snd (mapSet key True (running c)))) \<subseteq> set (DataTypes c)"
        by blast
      ultimately show ?thesis by (simp only:)
    next
      case notin: False
      then obtain e where "getErrorIfNotCollectable c key = Some e"
        using getErrorIfNotCollectable_loop_None [of "DataTypes c" key]
        by (auto simp: getErrorIfNotCollectable_def)
      with False assms show ?thesis
        by (simp add: PTPCollector_Start_def)
    qed
  qed
qed

lemma CleanUp_running:
  assumes "set (runningKeys c) \<subseteq> set (DataTypes c)"
  shows "set (runningKeys (snd (PTPCollector_CleanUp c key))) \<subseteq> set (DataTypes c)"
proof -
  from assms have old: "set (map fst (filter snd (running c))) \<subseteq> set (DataTypes c)"
    unfolding runningKeys_def .
  have "runningKeys (snd (PTPCollector_CleanUp c key)) = []
      \<or> runningKeys (snd (PTPCollector_CleanUp c key)) = runningKeys c
      \<or> runningKeys (snd (PTPCollector_CleanUp c key))
          = map fst (filter snd (mapDelete key (running c)))"
    unfolding runningKeys_def PTPCollector_CleanUp_def by (simp split: option.splits)
  moreover from old running_mapDelete [of key "running c"]
  have "set (map fst (filter snd (mapDelete key (running c)))) \<subseteq> set (DataTypes c)"
    by blast
  ultimately show ?thesis using assms by auto
qed

lemma applyCalls_invariant:
  "set (runningKeys c) \<subseteq> set (DataTypes c) \<Longrightarrow>
     set (runningKeys (applyCalls c calls)) \<subseteq> set (DataTypes c)
     \<and> DataTypes (applyCalls c calls) = DataTypes c"
proof (induction calls arbitrary: c)
  case Nil
  then show ?case by simp
next
  case (Cons x calls)
  let ?c = "snd (applyCall c x)"
  have dt: "DataTypes ?c = DataTypes c"
    by (cases x) (simp_all add: Start_DataTypes CleanUp_DataTypes)
  from Cons.prems have "set (runningKeys ?c) \<subseteq> set (DataTypes c)"
    by (cases x) (simp_all add: Start_running CleanUp_running)
  with dt Cons.IH [of ?c] show ?case by simp
qed

lemma unrecognised_key_rejected:
  assumes "key \<noteq> All_key" and "key \<notin> set (DataTypes c)"
  shows "PTPCollector_Start c key = (Some (getNotCollectableError key), c)"
    and "PTPCollector_CleanUp c key = (Some (getNotCollectableError key), c)"
proof -
  have loop: "\<And>ks. key \<notin> set ks \<Longrightarrow>
      getErrorIfNotCollectable_loop ks key = Some (getNotCollectableError key)"
  proof -
    fix ks show "key \<notin> set ks \<Longrightarrow>
      getErrorIfNotCollectable_loop ks key = Some (getNotCollectableError key)"
      by (induction ks) auto
  qed
  from assms loop [of "DataTypes c"]
  show "PTPCollector_Start c key = (Some (getNotCollectableError key), c)"
    and "PTPCollector_CleanUp c key = (Some (getNotCollectableError key), c)"
    by (simp_all add: PTPCollector_Start_def PTPCollector_CleanUp_def getErrorIfNotCollectable_def)
qed

lemma GPSCollector_unrecognised_key_rejected:
  assumes "key \<noteq> All_key" and "key \<noteq> GPSNavKey"
  shows "fst (GPSCollector_Start gps key) \<noteq> None \<and> snd (GPSCollector_Start gps key) = gps
       \<and> fst (GPSCollector_CleanUp gps key) \<noteq> None \<and> snd (GPSCollector_CleanUp gps key) = gps"
  using assms by (simp add: GPSCollector_Start_def GPSCollector_CleanUp_def)

lemma GPSCollector_running_within_collectables:
  "set (gpsRunningKeys gps) \<subseteq> set ubxCollectables"
  by (auto simp: gpsRunningKeys_def ubxCollectables_def)

text \<open>
  Claim C5. On the PTP collector, \<open>Start\<close> and \<open>CleanUp\<close> with a key that is neither
  "all" nor one of the collectable keys return an error and leave the collector, hence its
  running keys, as it was. From a state whose running keys are collectable keys (the
  constructor creates the collector with none running), every sequence of \<open>Start\<close> and
  \<open>CleanUp\<close> calls, with any keys, ends in a state whose running keys are collectable
  keys, and the collectable keys are the same as before.
\<close>

theorem PTPCollector_running_within_collectables:
  "(key \<noteq> All_key \<and> key \<notin> set (DataTypes c) \<longrightarrow>
      fst (PTPCollector_Start c key) \<noteq> None \<and> snd (PTPCollector_Start c key) = c
      \<and> fst (PTPCollector_CleanUp c key) \<noteq> None \<and> snd (PTPCollector_CleanUp c key) = c)
   \<and> (set (runningKeys c) \<subseteq> set (DataTypes c) \<longrightarrow>
      set (runningKeys (applyCalls c calls)) \<subseteq> set (DataTypes (applyCalls c calls))
      \<and> DataTypes (applyCalls c calls) = DataTypes c)"
  using unrecognised_key_rejected [of key c] applyCalls_invariant [of c calls]
  by simp

theorem PTPCollector_running_within_collectables_witness:
  "''gnss-dev'' \<noteq> All_key
   \<and> ''gnss-dev'' \<notin> set ptpCollectables
   \<and> fst (PTPCollector_Start
        \<lparr>data = Map.empty, running = [], DataTypes = ptpCollectables, interfaceName = ''ens1f0'',
         ctx = zeroContainerExecContext, runningPolls = 0, count = 0\<rparr> ''gnss-dev'') \<noteq> None
   \<and> set (runningKeys
        \<lparr>data = Map.empty, running = [], DataTypes = ptpCollectables, interfaceName = ''ens1f0'',
         ctx = zeroContainerExecContext, runningPolls = 0, count = 0\<rparr>) \<subseteq> set ptpCollectables
   \<and> runningKeys (applyCalls
        \<lparr>data = Map.empty, running = [], DataTypes = ptpCollectables, interfaceName = ''ens1f0'',
         ctx = zeroContainerExecContext, runningPolls = 0, count = 0\<rparr>
        [StartCall ''all'', CleanUpCall ''device-info'', StartCall ''bogus'',
         CleanUpCall ''gnss-dev'']) = [''dpll-info'']
   \<and> set (runningKeys (applyCalls
        \<lparr>data = Map.empty, running = [], DataTypes = ptpCollectables, interfaceName = ''ens1f0'',
         ctx = zeroContainerExecContext, runningPolls = 0, count = 0\<rparr>
        [StartCall ''all'', CleanUpCall ''device-info'', StartCall ''bogus'',
         CleanUpCall ''gnss-dev''])) \<subseteq> set ptpCollectables"
  using PTPCollector_running_within_collectables
    [of "''gnss-dev''"
        "\<lparr>data = Map.empty, running = [], DataTypes = ptpCollectables, interfaceName = ''ens1f0'',
         ctx = zeroContainerExecContext, runningPolls = 0, count = 0\<rparr>"
        "[StartCall ''all'', CleanUpCall ''device-info'', StartCall ''bogus'',
         CleanUpCall ''gnss-dev'']"]
  by (simp add: All_key_def ptpCollectables_def DeviceInfo_def DPLLInfo_def runningKeys_def
      PTPCollector_Start_def PTPCollector_CleanUp_def getErrorIfNotCollectable_def mapDelete_def)

section \<open>Properties of Poll\<close>

lemma Poll_loop_attempts:
  "PTPCollector_Poll_loop env entries c errs att w = (c', errs', att', w') \<Longrightarrow>
     \<exists>new. att' = att @ new \<and> errs' = errs @ List.map_filter snd new
          \<and> map fst new = map fst (filter snd entries)"
proof (induction entries arbitrary: c errs att w)
  case Nil
  then show ?case by (simp add: List.map_filter_simps)
next
  case (Cons e entries)
  obtain key isRunning where e: "e = (key, isRunning)" by (cases e)
  show ?case
  proof (cases isRunning)
    case False
    with Cons.prems e have "PTPCollector_Poll_loop env entries c errs att w = (c', errs', att', w')"
      by simp
    from Cons.IH [OF this] e False show ?thesis by simp
  next
    case True
    obtain r c1 w1 where f: "fetchLine env c key w = (r, c1, w1)" by (cases "fetchLine env c key w")
    show ?thesis
    proof (cases r)
      case (Inl err)
      with Cons.prems e True f
      have "PTPCollector_Poll_loop env entries c1 (errs @ [err]) (att @ [(key, Some err)]) w1
          = (c', errs', att', w')" by simp
      from Cons.IH [OF this] obtain new where
        "att' = (att @ [(key, Some err)]) @ new"
        "errs' = (errs @ [err]) @ List.map_filter snd new"
        "map fst new = map fst (filter snd entries)" by blast
      with e True have "att' = att @ ((key, Some err) # new)
          \<and> errs' = errs @ List.map_filter snd ((key, Some err) # new)
          \<and> map fst ((key, Some err) # new) = map fst (filter snd (e # entries))"
        by (simp add: List.map_filter_simps)
      then show ?thesis by blast
    next
      case (Inr line)
      obtain s w2 where k: "Call env ''*collectors.PTPCollector'' key line w1 = (s, w2)"
        by (cases "Call env ''*collectors.PTPCollector'' key line w1")
      show ?thesis
      proof (cases s)
        case None
        with Cons.prems e True f Inr k
        have "PTPCollector_Poll_loop env entries c1 errs (att @ [(key, None)]) w2
            = (c', errs', att', w')" by simp
        from Cons.IH [OF this] obtain new where
          "att' = (att @ [(key, None)]) @ new"
          "errs' = errs @ List.map_filter snd new"
          "map fst new = map fst (filter snd entries)" by blast
        with e True have "att' = att @ ((key, None) # new)
            \<and> errs' = errs @ List.map_filter snd ((key, None) # new)
            \<and> map fst ((key, None) # new) = map fst (filter snd (e # entries))"
          by (simp add: List.map_filter_simps)
        then show ?thesis by blast
      next
        case (Some err)
        with Cons.prems e True f Inr k
        have "PTPCollector_Poll_loop env entries c1 (errs @ [err]) (att @ [(key, Some err)]) w2
            = (c', errs', att', w')" by simp
        from Cons.IH [OF this] obtain new where
          "att' = (att @ [(key, Some err)]) @ new"
          "errs' = (errs @ [err]) @ List.map_filter snd new"
          "map fst new = map fst (filter snd entries)" by blast
        with e True have "att' = att @ ((key, Some err) # new)
            \<and> errs' = errs @ List.map_filter snd ((key, Some err) # new)
            \<and> map fst ((key, Some err) # new) = map fst (filter snd (e # entries))"
          by (simp add: List.map_filter_simps)
        then show ?thesis by blast
      qed
    qed
  qed
qed

lemma length_map_filter_snd:
  "length (List.map_filter snd att) = length (filter (\<lambda>a. snd a \<noteq> None) att)"
  by (induction att) (auto simp: List.map_filter_simps split: option.splits)

lemma PTPCollector_Poll_outcome:
  assumes "PTPCollector_Poll env c resultsChan w = (c', resultsChan', w', attempts)"
  shows "\<exists>r. resultsChan' = resultsChan @ [r] \<and> CollectorName r = PTPCollectorName
           \<and> Errors r = List.map_filter snd attempts
           \<and> length (Errors r) = length (filter (\<lambda>a. snd a \<noteq> None) attempts)"
    and "map fst attempts = runningKeys c"
proof -
  let ?started = "c\<lparr>runningPolls := runningPolls c + 1\<rparr>"
  obtain p errs att w1 where
    loop: "PTPCollector_Poll_loop env (running ?started) ?started [] [] w = (p, errs, att, w1)"
    by (cases "PTPCollector_Poll_loop env (running ?started) ?started [] [] w")
  from Poll_loop_attempts [OF loop]
  have att: "errs = List.map_filter snd att" "map fst att = map fst (filter snd (running c))"
    by auto
  from assms loop have res: "resultsChan' = resultsChan @ [\<lparr>CollectorName = PTPCollectorName, Errors = errs\<rparr>]"
    and same: "attempts = att"
    by (simp_all add: PTPCollector_Poll_def Let_def)
  from res att same length_map_filter_snd [of attempts]
  show "\<exists>r. resultsChan' = resultsChan @ [r] \<and> CollectorName r = PTPCollectorName
           \<and> Errors r = List.map_filter snd attempts
           \<and> length (Errors r) = length (filter (\<lambda>a. snd a \<noteq> None) attempts)"
    by simp
  from att same show "map fst attempts = runningKeys c"
    by (simp add: runningKeys_def)
qed

lemma GPSCollector_Poll_one_result:
  "\<exists>r. fst (snd (GPSCollector_Poll env gps resultsChan w)) = resultsChan @ [r]
      \<and> CollectorName r = GPSCollectorName"
  by (auto simp: GPSCollector_Poll_def Let_def split: prod.splits sum.splits option.splits)

lemma PTPCollector_Poll_scenario:
  "runningKeys (snd (PTPCollector_Start idlePTPCollector ''device-info'')) = [''device-info'']
   \<and> (case PTPCollector_Poll sampleEnvironment
              (snd (PTPCollector_Start idlePTPCollector ''device-info'')) [] [] of
         (c', resultsChan, w, attempts) \<Rightarrow>
           resultsChan = [\<lparr>CollectorName = ''PTP'', Errors = []\<rparr>]
           \<and> w = [''GetPTPDeviceInfo'', ''Call device-info'']
           \<and> attempts = [(''device-info'', None)])"
  by (simp add: PTPCollector_Start_def All_key_def getErrorIfNotCollectable_def
      idlePTPCollector_def runningKeys_def PTPCollector_Poll_def fetchLine_def DeviceInfo_def
      sampleEnvironment_def marshalLine_def PTPCollectorName_def)

text \<open>
  Claim C1. Each \<open>Poll\<close> sends exactly one result, and on the PTP collector its errors
  are those of the attempts on the running keys (the three lemmas above). On the GPS
  collector \<open>Poll\<close> never reads \<open>running\<close>: polled while no key is running, with the
  receiver out of reach, it sends a result with one error.
\<close>

theorem GPSCollector_Poll_error_with_no_running_key:
  "gpsRunningKeys idleGPSCollector = []
   \<and> GPSCollector_Poll unreachableEnvironment idleGPSCollector [] []
       = (idleGPSCollector,
          [\<lparr>CollectorName = ''GPS-UBX'', Errors = [New ''gpsd unreachable'']\<rparr>],
          [''GetGPSNav''],
          [(''gpsNav'', Some (New ''gpsd unreachable''))])"
  by (simp add: gpsRunningKeys_def idleGPSCollector_def GPSCollector_Poll_def
      unreachableEnvironment_def sampleEnvironment_def GPSCollectorName_def GPSNavKey_def)

text \<open>
  Claim C2. On the PTP collector the keys attempted by a \<open>Poll\<close> are the running keys
  (lemma \<open>PTPCollector_Poll_outcome\<close>). The GPS collector, polled while its key is not
  running, fetches the key, hands it to the sink and reports success.
\<close>

theorem GPSCollector_Poll_fetches_key_not_running:
  "gpsRunningKeys idleGPSCollector = []
   \<and> GPSCollector_Poll sampleEnvironment idleGPSCollector [] []
       = (idleGPSCollector\<lparr>gpsCount := 1\<rparr>,
          [\<lparr>CollectorName = ''GPS-UBX'', Errors = []\<rparr>],
          [''GetGPSNav'', ''Call gpsNav''],
          [(''gpsNav'', None)])"
  by (simp add: gpsRunningKeys_def idleGPSCollector_def GPSCollector_Poll_def
      sampleEnvironment_def GPSCollectorName_def GPSNavKey_def)

section \<open>Properties of the per-call exec session\<close>

lemma refresh_podName:
  "snd (refresh clientset w c) =
     (case FindPodNameFromPrefix clientset w (namespace c) (podNamePrefix c) of
        Inl err \<Rightarrow> c
      | Inr newPodname \<Rightarrow> c\<lparr>podName := newPodname\<rparr>)"
  by (simp add: refresh_def split: sum.splits)

text \<open>
  Claim C6. When the executor is set up and the stream of a call fails with a not-found
  error, \<open>execCommand\<close> returns the captured stdout and stderr with that error (wrapped),
  leaves the cluster as that one stream left it (the command is not sent again), and
  replaces the pod name by the name found for the stored prefix, keeping the old name when
  the lookup fails. The request of the failing call was addressed to the old name; a
  request built afterwards is addressed to the new one.
\<close>

theorem execCommand_not_found_refreshes_without_retry:
  assumes "NewSPDYExecutor clientset w (execRequest c command (buffIn \<noteq> None)) = None"
    and "StreamWithContext clientset w (execRequest c command (buffIn \<noteq> None)) buffIn
           = ((stdout, stderr, Some err), w')"
    and "IsNotFound err"
  shows "execCommand clientset w c command buffIn =
           ((stdout, stderr, Some (Wrap ''error running remote command: '' err)),
            (case FindPodNameFromPrefix clientset w' (namespace c) (podNamePrefix c) of
               Inl refreshErr \<Rightarrow> c
             | Inr newPodname \<Rightarrow> c\<lparr>podName := newPodname\<rparr>),
            w')
       \<and> reqName (execRequest c command (buffIn \<noteq> None)) = podName c
       \<and> (\<forall>newPodname nextCommand nextIn.
             FindPodNameFromPrefix clientset w' (namespace c) (podNamePrefix c) = Inr newPodname
             \<longrightarrow> reqName (execRequest (fst (snd (execCommand clientset w c command buffIn)))
                     nextCommand nextIn) = newPodname)"
proof -
  from assms have run: "execCommand clientset w c command buffIn =
      ((stdout, stderr, Some (Wrap ''error running remote command: '' err)),
       snd (refresh clientset w' c), w')"
    by (simp add: execCommand_def Let_def)
  then show ?thesis
    by (auto simp: refresh_podName execRequest_def)
qed

theorem execCommand_not_found_refreshes_without_retry_witness:
  "NewSPDYExecutor sampleClientset [] (execRequest sampleContext [''date''] False) = None
   \<and> StreamWithContext sampleClientset [] (execRequest sampleContext [''date''] False) None
       = ((''partial'', ''warning'',
           Some (Status NotFound ''pods linuxptp-daemon-old not found'')),
          [''exec in linuxptp-daemon-old''])
   \<and> IsNotFound (Status NotFound ''pods linuxptp-daemon-old not found'')
   \<and> execCommand sampleClientset [] sampleContext [''date''] None
       = ((''partial'', ''warning'',
           Some (Wrap ''error running remote command: ''
                  (Status NotFound ''pods linuxptp-daemon-old not found''))),
          sampleContext\<lparr>podName := ''linuxptp-daemon-new''\<rparr>,
          [''exec in linuxptp-daemon-old''])
   \<and> execCommand sampleClientset [''exec in linuxptp-daemon-old'']
         (sampleContext\<lparr>podName := ''linuxptp-daemon-new''\<rparr>) [''date''] None
       = ((''done'', [], None), sampleContext\<lparr>podName := ''linuxptp-daemon-new''\<rparr>,
          [''exec in linuxptp-daemon-old'', ''exec in linuxptp-daemon-new''])"
proof -
  have exe: "NewSPDYExecutor sampleClientset []
      (execRequest sampleContext [''date''] ((None :: string option) \<noteq> None)) = None"
    by (simp add: sampleClientset_def)
  have stream: "StreamWithContext sampleClientset []
      (execRequest sampleContext [''date''] ((None :: string option) \<noteq> None)) None
       = ((''partial'', ''warning'',
           Some (Status NotFound ''pods linuxptp-daemon-old not found'')),
          [''exec in linuxptp-daemon-old''])"
    by (simp add: sampleClientset_def execRequest_def sampleContext_def)
  have nf: "IsNotFound (Status NotFound ''pods linuxptp-daemon-old not found'')"
    by simp
  have next_call: "execCommand sampleClientset [''exec in linuxptp-daemon-old'']
         (sampleContext\<lparr>podName := ''linuxptp-daemon-new''\<rparr>) [''date''] None
       = ((''done'', [], None), sampleContext\<lparr>podName := ''linuxptp-daemon-new''\<rparr>,
          [''exec in linuxptp-daemon-old'', ''exec in linuxptp-daemon-new''])"
    by (simp add: execCommand_def sampleClientset_def execRequest_def sampleContext_def)
  from execCommand_not_found_refreshes_without_retry [OF exe stream nf]
  have "execCommand sampleClientset [] sampleContext [''date''] None
       = ((''partial'', ''warning'',
           Some (Wrap ''error running remote command: ''
                  (Status NotFound ''pods linuxptp-daemon-old not found''))),
          sampleContext\<lparr>podName := ''linuxptp-daemon-new''\<rparr>,
          [''exec in linuxptp-daemon-old''])"
    by (simp add: sampleClientset_def sampleContext_def)
  with exe stream nf next_call show ?thesis by simp
qed

section \<open>Properties of the PTP collector's constructor\<close>

text \<open>
  Claim C9. \<open>NewPTPCollector\<close> returns without error only when the device info it
  fetched first has VendorID "0x8086" and DeviceID "0x1593". When the fetched info has any
  other pair it returns an error, and whenever it returns an error the collector it
  returns is the zero value: the collector is assembled only after the check.
\<close>

theorem NewPTPCollector_requires_E810:
  "(snd (fst (NewPTPCollector clientset env constuctor w)) = None \<longrightarrow>
      (\<exists>newCtx devInfo w1.
         NewContainerContext clientset w PTPNamespace PodNamePrefix PTPContainer = (newCtx, None)
         \<and> GetPTPDeviceInfo env (PTPInterface constuctor) newCtx w = (Inr devInfo, w1)
         \<and> VendorID devInfo = ''0x8086'' \<and> DeviceID devInfo = ''0x1593''))
   \<and> (NewContainerContext clientset w PTPNamespace PodNamePrefix PTPContainer = (newCtx, None)
        \<and> GetPTPDeviceInfo env (PTPInterface constuctor) newCtx w = (Inr devInfo, w1)
        \<and> (VendorID devInfo \<noteq> ''0x8086'' \<or> DeviceID devInfo \<noteq> ''0x1593'')
      \<longrightarrow> snd (fst (NewPTPCollector clientset env constuctor w)) \<noteq> None)
   \<and> (snd (fst (NewPTPCollector clientset env constuctor w)) \<noteq> None \<longrightarrow>
        fst (fst (NewPTPCollector clientset env constuctor w)) = zeroPTPCollector)"
  by (auto simp: NewPTPCollector_def Let_def VendorIntel_def DeviceE810_def
      split: prod.splits option.splits sum.splits if_splits)

theorem NewPTPCollector_requires_E810_witness:
  "snd (fst (NewPTPCollector sampleClientset sampleEnvironment \<lparr>PTPInterface = ''ens1f0''\<rparr> []))
     = None
   \<and> GetPTPDeviceInfo sampleEnvironment ''ens1f0''
        \<lparr>namespace = ''openshift-ptp'', podName = ''linuxptp-daemon-new'',
         containerName = ''linuxptp-daemon-container'', podNamePrefix = ''linuxptp-daemon-''\<rparr> []
       = (Inr \<lparr>Timestamp = [], VendorID = ''0x8086'', DeviceID = ''0x1593'',
               devGNSSDev = ''/dev/gnss0''\<rparr>, [''GetPTPDeviceInfo''])
   \<and> NewContainerContext sampleClientset [] PTPNamespace PodNamePrefix PTPContainer
       = (\<lparr>namespace = ''openshift-ptp'', podName = ''linuxptp-daemon-new'',
           containerName = ''linuxptp-daemon-container'',
           podNamePrefix = ''linuxptp-daemon-''\<rparr>, None)
   \<and> GetPTPDeviceInfo otherCardEnvironment ''ens1f0''
        \<lparr>namespace = ''openshift-ptp'', podName = ''linuxptp-daemon-new'',
         containerName = ''linuxptp-daemon-container'', podNamePrefix = ''linuxptp-daemon-''\<rparr> []
       = (Inr \<lparr>Timestamp = [], VendorID = ''0x8086'', DeviceID = ''0x1592'',
               devGNSSDev = ''/dev/gnss0''\<rparr>, [''GetPTPDeviceInfo''])
   \<and> fst (NewPTPCollector sampleClientset otherCardEnvironment \<lparr>PTPInterface = ''ens1f0''\<rparr> [])
       = (zeroPTPCollector, Some (New ''NIC device is not based on E810''))"
proof -
  have ok: "snd (fst (NewPTPCollector sampleClientset sampleEnvironment
      \<lparr>PTPInterface = ''ens1f0''\<rparr> [])) = None"
    by (simp add: NewPTPCollector_def NewContainerContext_def sampleClientset_def
        sampleEnvironment_def DeviceInfo_def DPLLInfo_def VendorIntel_def DeviceE810_def)
  have ctx: "NewContainerContext sampleClientset [] PTPNamespace PodNamePrefix PTPContainer
       = (\<lparr>namespace = ''openshift-ptp'', podName = ''linuxptp-daemon-new'',
           containerName = ''linuxptp-daemon-container'',
           podNamePrefix = ''linuxptp-daemon-''\<rparr>, None)"
    by (simp add: NewContainerContext_def sampleClientset_def PTPNamespace_def
        PodNamePrefix_def PTPContainer_def)
  have other: "GetPTPDeviceInfo otherCardEnvironment ''ens1f0''
        \<lparr>namespace = ''openshift-ptp'', podName = ''linuxptp-daemon-new'',
         containerName = ''linuxptp-daemon-container'', podNamePrefix = ''linuxptp-daemon-''\<rparr> []
       = (Inr \<lparr>Timestamp = [], VendorID = ''0x8086'', DeviceID = ''0x1592'',
               devGNSSDev = ''/dev/gnss0''\<rparr>, [''GetPTPDeviceInfo''])"
    by (simp add: otherCardEnvironment_def sampleEnvironment_def)
  have good: "GetPTPDeviceInfo sampleEnvironment ''ens1f0''
        \<lparr>namespace = ''openshift-ptp'', podName = ''linuxptp-daemon-new'',
         containerName = ''linuxptp-daemon-container'', podNamePrefix = ''linuxptp-daemon-''\<rparr> []
       = (Inr \<lparr>Timestamp = [], VendorID = ''0x8086'', DeviceID = ''0x1593'',
               devGNSSDev = ''/dev/gnss0''\<rparr>, [''GetPTPDeviceInfo''])"
    by (simp add: sampleEnvironment_def)
  have res: "fst (NewPTPCollector sampleClientset otherCardEnvironment
      \<lparr>PTPInterface = ''ens1f0''\<rparr> [])
       = (zeroPTPCollector, Some (New ''NIC device is not based on E810''))"
    by (simp add: NewPTPCollector_def NewContainerContext_def sampleClientset_def
        otherCardEnvironment_def sampleEnvironment_def DeviceInfo_def DPLLInfo_def
        VendorIntel_def DeviceE810_def)
  from NewPTPCollector_requires_E810
    [of sampleClientset otherCardEnvironment "\<lparr>PTPInterface = ''ens1f0''\<rparr>" "[]"
        "\<lparr>namespace = ''openshift-ptp'', podName = ''linuxptp-daemon-new'',
         containerName = ''linuxptp-daemon-container'', podNamePrefix = ''linuxptp-daemon-''\<rparr>"
        "\<lparr>Timestamp = [], VendorID = ''0x8086'', DeviceID = ''0x1592'',
               devGNSSDev = ''/dev/gnss0''\<rparr>" "[''GetPTPDeviceInfo'']"]
    ctx other
  have "snd (fst (NewPTPCollector sampleClientset otherCardEnvironment
      \<lparr>PTPInterface = ''ens1f0''\<rparr> [])) \<noteq> None"
    by simp
  with ok ctx other good res show ?thesis by simp
qed

end
